theory Spec2Isabelle
  imports Complex_Main
begin

section \<open>Floating-point values and Python errors\<close>

text \<open>
  A float is modelled by its IEEE class: a finite value (carried as the real number it
  denotes; the sign of zero is not represented), the two infinities, or NaN. An arithmetic
  operation on finite operands yields the exact result passed through the rounding
  function of the format it is computed in, which may also overflow to an infinity; the
  rounding function is an argument of each operation.
\<close>

datatype fl = Finite real | PosInf | NegInf | NaN

text \<open>\<^verbatim>\<open>np.isfinite(x)\<close> and \<^verbatim>\<open>np.isnan(x)\<close>.\<close>

fun isfinite :: "fl \<Rightarrow> bool" where
  "isfinite (Finite x) = True"
| "isfinite PosInf = False"
| "isfinite NegInf = False"
| "isfinite NaN = False"

fun isnan :: "fl \<Rightarrow> bool" where
  "isnan NaN = True"
| "isnan (Finite x) = False"
| "isnan PosInf = False"
| "isnan NegInf = False"

text \<open>The comparison \<^verbatim>\<open>Z <= 0\<close>: every comparison with NaN is false.\<close>

fun fl_le_zero :: "fl \<Rightarrow> bool" where
  "fl_le_zero (Finite x) = (x \<le> 0)"
| "fl_le_zero NegInf = True"
| "fl_le_zero PosInf = False"
| "fl_le_zero NaN = False"

text \<open>IEEE addition, multiplication and division on the four classes.\<close>

fun fl_add :: "(real \<Rightarrow> fl) \<Rightarrow> fl \<Rightarrow> fl \<Rightarrow> fl" where
  "fl_add rnd (Finite a) (Finite b) = rnd (a + b)"
| "fl_add rnd (Finite a) PosInf = PosInf"
| "fl_add rnd (Finite a) NegInf = NegInf"
| "fl_add rnd PosInf (Finite b) = PosInf"
| "fl_add rnd NegInf (Finite b) = NegInf"
| "fl_add rnd PosInf PosInf = PosInf"
| "fl_add rnd NegInf NegInf = NegInf"
| "fl_add rnd PosInf NegInf = NaN"
| "fl_add rnd NegInf PosInf = NaN"
| "fl_add rnd NaN y = NaN"
| "fl_add rnd x NaN = NaN"

fun fl_mul :: "(real \<Rightarrow> fl) \<Rightarrow> fl \<Rightarrow> fl \<Rightarrow> fl" where
  "fl_mul rnd (Finite a) (Finite b) = rnd (a * b)"
| "fl_mul rnd (Finite a) PosInf = (if a = 0 then NaN else if 0 < a then PosInf else NegInf)"
| "fl_mul rnd (Finite a) NegInf = (if a = 0 then NaN else if 0 < a then NegInf else PosInf)"
| "fl_mul rnd PosInf (Finite b) = (if b = 0 then NaN else if 0 < b then PosInf else NegInf)"
| "fl_mul rnd NegInf (Finite b) = (if b = 0 then NaN else if 0 < b then NegInf else PosInf)"
| "fl_mul rnd PosInf PosInf = PosInf"
| "fl_mul rnd NegInf NegInf = PosInf"
| "fl_mul rnd PosInf NegInf = NegInf"
| "fl_mul rnd NegInf PosInf = NegInf"
| "fl_mul rnd NaN y = NaN"
| "fl_mul rnd x NaN = NaN"

text \<open>
  Division of numpy scalars does not raise on a zero divisor: it yields an infinity or NaN.
\<close>

fun fl_div :: "(real \<Rightarrow> fl) \<Rightarrow> fl \<Rightarrow> fl \<Rightarrow> fl" where
  "fl_div rnd (Finite a) (Finite b) =
     (if b = 0 then (if a = 0 then NaN else if 0 < a then PosInf else NegInf)
      else rnd (a / b))"
| "fl_div rnd (Finite a) PosInf = Finite 0"
| "fl_div rnd (Finite a) NegInf = Finite 0"
| "fl_div rnd PosInf (Finite b) = (if 0 \<le> b then PosInf else NegInf)"
| "fl_div rnd NegInf (Finite b) = (if 0 \<le> b then NegInf else PosInf)"
| "fl_div rnd PosInf PosInf = NaN"
| "fl_div rnd PosInf NegInf = NaN"
| "fl_div rnd NegInf PosInf = NaN"
| "fl_div rnd NegInf NegInf = NaN"
| "fl_div rnd NaN y = NaN"
| "fl_div rnd x NaN = NaN"

text \<open>
  Conversion of a float to another float format: a finite value is rounded, the other
  classes are kept.
\<close>

fun fl_cast :: "(real \<Rightarrow> fl) \<Rightarrow> fl \<Rightarrow> fl" where
  "fl_cast rnd (Finite a) = rnd a"
| "fl_cast rnd PosInf = PosInf"
| "fl_cast rnd NegInf = NegInf"
| "fl_cast rnd NaN = NaN"

text \<open>
  The arithmetic that the node takes from Python and numpy. \<open>rnd_py\<close> rounds an exact
  result to a Python float. \<open>rnd_np\<close> rounds to the float type in which numpy computes
  with a scalar of the depth image and a Python float: the Python float is first converted
  to that type, then the operation is rounded in it. \<open>np_mean\<close> is \<^verbatim>\<open>np.mean\<close> on a
  one-dimensional array of depth values; the order in which numpy adds them up is its own.
\<close>

record numerics =
  rnd_py :: "real \<Rightarrow> fl"
  rnd_np :: "real \<Rightarrow> fl"
  np_mean :: "fl list \<Rightarrow> fl"

datatype error =
    IndexError | KeyError | ValueError | OverflowError | TypeError
  | CvBridgeError | OtherError

text \<open>
  \<^verbatim>\<open>int(x)\<close> on a Python float truncates towards zero, raises ValueError on NaN and
  OverflowError on an infinity.
\<close>

fun py_int :: "fl \<Rightarrow> error + int" where
  "py_int (Finite x) = Inr (if 0 \<le> x then \<lfloor>x\<rfloor> else \<lceil>x\<rceil>)"
| "py_int NaN = Inl ValueError"
| "py_int PosInf = Inl OverflowError"
| "py_int NegInf = Inl OverflowError"

section \<open>The depth image: a two-dimensional numpy array\<close>

text \<open>
  An array of shape \<open>(nrows, ncols)\<close>, addressed as \<^verbatim>\<open>arr[row, col]\<close>. The cell
  function is only ever applied inside the shape by the operations below.
\<close>

record ndarray =
  nrows :: nat
  ncols :: nat
  cell :: "nat \<Rightarrow> nat \<Rightarrow> fl"

text \<open>
  Scalar indexing along an axis of length \<open>n\<close>: a negative index counts from the end,
  an index outside \<open>[-n, n)\<close> raises IndexError.
\<close>

definition getitem_index :: "nat \<Rightarrow> int \<Rightarrow> error + nat" where
  "getitem_index n i =
     (let j = (if i < 0 then i + int n else i)
      in if 0 \<le> j \<and> j < int n then Inr (nat j) else Inl IndexError)"

text \<open>\<^verbatim>\<open>arr[v, u]\<close>.\<close>

definition getitem2 :: "ndarray \<Rightarrow> int \<Rightarrow> int \<Rightarrow> error + fl" where
  "getitem2 arr v u =
     (case getitem_index (nrows arr) v of
        Inl e \<Rightarrow> Inl e
      | Inr r \<Rightarrow>
          (case getitem_index (ncols arr) u of
             Inl e \<Rightarrow> Inl e
           | Inr c \<Rightarrow> Inr (cell arr r c)))"

text \<open>
  Slicing \<^verbatim>\<open>start:stop\<close> along an axis of length \<open>n\<close> never raises: a negative bound
  counts from the end and every bound is then clamped to \<open>[0, n]\<close>; the slice is the
  half-open range of the two adjusted bounds (empty when they cross).
\<close>

definition slice_index :: "nat \<Rightarrow> int \<Rightarrow> nat" where
  "slice_index n i = nat (if i < 0 then max (i + int n) 0 else min i (int n))"

definition slice_range :: "nat \<Rightarrow> int \<Rightarrow> int \<Rightarrow> nat list" where
  "slice_range n start stop = [slice_index n start ..< slice_index n stop]"

text \<open>
  The cells selected by \<^verbatim>\<open>arr[y_min:y_max, x_min:x_max]\<close>, in row-major order.
\<close>

definition region_cells :: "ndarray \<Rightarrow> int \<Rightarrow> int \<Rightarrow> int \<Rightarrow> int \<Rightarrow> (nat \<times> nat) list" where
  "region_cells arr y_min y_max x_min x_max =
     List.product (slice_range (nrows arr) y_min y_max) (slice_range (ncols arr) x_min x_max)"

text \<open>
  Lines 189 to 195 of \<^verbatim>\<open>main_timer_callback\<close>:
  \<^verbatim>\<open>depth_values = self.depth_image[y_min:y_max, x_min:x_max]\<close>,
  \<^verbatim>\<open>valid_depths = depth_values[np.isfinite(depth_values)]\<close>, and the mean of the
  valid depths, or \<^verbatim>\<open>float('nan')\<close> when there is none.
\<close>

definition depth_values :: "ndarray \<Rightarrow> int \<Rightarrow> int \<Rightarrow> int \<Rightarrow> int \<Rightarrow> fl list" where
  "depth_values arr y_min y_max x_min x_max =
     map (\<lambda>(r, c). cell arr r c) (region_cells arr y_min y_max x_min x_max)"

definition valid_depths :: "fl list \<Rightarrow> fl list" where
  "valid_depths dvs = filter isfinite dvs"

definition depth_value :: "numerics \<Rightarrow> ndarray \<Rightarrow> int \<Rightarrow> int \<Rightarrow> int \<Rightarrow> int \<Rightarrow> fl" where
  "depth_value num arr y_min y_max x_min x_max =
     (let vd = valid_depths (depth_values arr y_min y_max x_min x_max)
      in if length vd > 0 then np_mean num vd else NaN)"

section \<open>The node: state, detector results and observable effects\<close>

type_synonym point = "fl \<times> fl \<times> fl"

text \<open>
  One row of \<^verbatim>\<open>results[0].boxes.data\<close>: six floats, unpacked as
  \<^verbatim>\<open>x_min, y_min, x_max, y_max, confidence, class_index\<close>.
\<close>

record bbox =
  x_min :: fl
  y_min :: fl
  x_max :: fl
  y_max :: fl
  confidence :: fl
  class_index :: fl

text \<open>
  What the detector returns: the boxes and the dictionary \<^verbatim>\<open>names\<close> from integer
  class index to label.
\<close>

record results =
  boxes :: "bbox list"
  names :: "int \<rightharpoonup> string"

text \<open>
  The fields of the node that the callbacks use. The detector \<open>model\<close> is an external
  collaborator, taken as a function from the image to its results. The intrinsics are
  finite floats.
\<close>

record 'img node =
  model :: "'img \<Rightarrow> results"
  fx :: real
  fy :: real
  cx :: real
  cy :: real
  raw_image :: "'img option"
  depth_image :: "ndarray option"
  pcd :: "point list option"

text \<open>
  The effects of the callbacks, in the order they happen: the detector call of line 176,
  the four \<^verbatim>\<open>print\<close> statements (lines 124, 198, 207 and 218; an event carries the
  values that the line formats), the display calls of lines 211 to 214, and the error
  log of the stream callbacks.
\<close>

datatype 'img event =
    ModelCall 'img
  | PrintInvalidDepth int int
  | PrintEstimatedDepth string fl
  | PrintPoints "point list"
  | PrintImageIsNone
  | ImShow
  | DrawBboxes
  | WaitKey
  | LogError error

text \<open>
  \<^verbatim>\<open>results[0].names[class_index]\<close>: the key is a float, which finds an integer key
  exactly when it is equal to it; otherwise KeyError.
\<close>

fun names_lookup :: "(int \<rightharpoonup> string) \<Rightarrow> fl \<Rightarrow> error + string" where
  "names_lookup nm (Finite x) =
     (if of_int \<lfloor>x\<rfloor> = x
      then (case nm \<lfloor>x\<rfloor> of None \<Rightarrow> Inl KeyError | Some s \<Rightarrow> Inr s)
      else Inl KeyError)"
| "names_lookup nm PosInf = Inl KeyError"
| "names_lookup nm NegInf = Inl KeyError"
| "names_lookup nm NaN = Inl KeyError"

section \<open>Back-projection of a pixel\<close>

text \<open>
  \<^verbatim>\<open>pixel_to_pcd(self, pixel)\<close>, lines 118 to 132. The depth is read from the cached
  depth image at \<^verbatim>\<open>[v, u]\<close> (subscripting a missing image raises TypeError, an index
  outside the image raises IndexError). An invalid depth prints a message and sets X and
  Y to NaN. Otherwise \<^verbatim>\<open>X = Z * (u - self.cx) / self.fx\<close>: the difference is Python
  arithmetic on an integer and a float, the product and the quotient are numpy arithmetic
  on the depth scalar and a Python float. Z is returned as read in both branches.
\<close>

definition pixel_to_pcd ::
  "numerics \<Rightarrow> 'img node \<Rightarrow> int \<times> int \<Rightarrow> 'img event list \<times> (error + point)" where
  "pixel_to_pcd num self pixel =
     (case pixel of (u, v) \<Rightarrow>
        (case depth_image self of
           None \<Rightarrow> ([], Inl TypeError)
         | Some d \<Rightarrow>
             (case getitem2 d v u of
                Inl e \<Rightarrow> ([], Inl e)
              | Inr Z \<Rightarrow>
                  if fl_le_zero Z \<or> Z = PosInf \<or> isnan Z
                  then ([PrintInvalidDepth u v], Inr (NaN, NaN, Z))
                  else ([], Inr (fl_div (rnd_np num)
                                   (fl_mul (rnd_np num) Z
                                      (fl_cast (rnd_np num) (rnd_py num (of_int u - cx self))))
                                   (fl_cast (rnd_np num) (Finite (fx self))),
                                 fl_div (rnd_np num)
                                   (fl_mul (rnd_np num) Z
                                      (fl_cast (rnd_np num) (rnd_py num (of_int v - cy self))))
                                   (fl_cast (rnd_np num) (Finite (fy self))),
                                 Z)))))"

section \<open>The timer callback\<close>

text \<open>
  The inner loop of lines 202 to 204: every pixel of \<open>pixel_list\<close> is back-projected in
  order and appended to \<open>point_list\<close>; an exception ends the loop, the messages printed
  before it stay printed.
\<close>

fun point_loop ::
  "numerics \<Rightarrow> 'img node \<Rightarrow> (int \<times> int) list \<Rightarrow> 'img event list \<times> (error + point list)" where
  "point_loop num self [] = ([], Inr [])"
| "point_loop num self (pixel # pixels) =
     (case pixel_to_pcd num self pixel of
        (ev, Inl e) \<Rightarrow> (ev, Inl e)
      | (ev, Inr point_3d) \<Rightarrow>
          (case point_loop num self pixels of
             (ev', Inl e) \<Rightarrow> (ev @ ev', Inl e)
           | (ev', Inr point_list) \<Rightarrow> (ev @ ev', Inr (point_3d # point_list))))"

text \<open>
  Line 186: the four coordinates are converted with \<^verbatim>\<open>int\<close> in the order
  \<open>x_min\<close>, \<open>x_max\<close>, \<open>y_min\<close>, \<open>y_max\<close>; the first conversion that fails raises.
\<close>

definition int_bounds :: "bbox \<Rightarrow> error + (int \<times> int \<times> int \<times> int)" where
  "int_bounds b =
     (case py_int (x_min b) of Inl e \<Rightarrow> Inl e | Inr xmin \<Rightarrow>
     (case py_int (x_max b) of Inl e \<Rightarrow> Inl e | Inr xmax \<Rightarrow>
     (case py_int (y_min b) of Inl e \<Rightarrow> Inl e | Inr ymin \<Rightarrow>
     (case py_int (y_max b) of Inl e \<Rightarrow> Inl e | Inr ymax \<Rightarrow>
        Inr (xmin, xmax, ymin, ymax)))))"

text \<open>\<^verbatim>\<open>pixel_list\<close> of line 187.\<close>

definition pixel_list :: "int \<Rightarrow> int \<Rightarrow> int \<Rightarrow> int \<Rightarrow> (int \<times> int) list" where
  "pixel_list xmin ymin xmax ymax = [(xmin, ymin), (xmin, ymax), (xmax, ymin), (xmax, ymax)]"

text \<open>
  The body of the loop over the boxes, lines 185 to 207, for one box. The result is the
  value appended to \<open>bboxes_pcd\<close> in line 206: \<open>point_3d\<close>, the last point computed.
\<close>

definition process_bbox ::
  "numerics \<Rightarrow> 'img node \<Rightarrow> (int \<rightharpoonup> string) \<Rightarrow> bbox \<Rightarrow> 'img event list \<times> (error + point)" where
  "process_bbox num self nm b =
     (case int_bounds b of Inl e \<Rightarrow> ([], Inl e) | Inr (xmin, xmax, ymin, ymax) \<Rightarrow>
     (case depth_image self of None \<Rightarrow> ([], Inl TypeError) | Some d \<Rightarrow>
     (let dv = depth_value num d ymin ymax xmin xmax in
     (case names_lookup nm (class_index b) of Inl e \<Rightarrow> ([], Inl e) | Inr class_name \<Rightarrow>
     (case point_loop num self (pixel_list xmin ymin xmax ymax) of
        (ev, Inl e) \<Rightarrow> (PrintEstimatedDepth class_name dv # ev, Inl e)
      | (ev, Inr point_list) \<Rightarrow>
          (PrintEstimatedDepth class_name dv # ev @ [PrintPoints point_list],
           Inr (last point_list)))))))"

text \<open>The loop of line 184 over the boxes, building \<open>bboxes_pcd\<close>.\<close>

fun fusion_loop ::
  "numerics \<Rightarrow> 'img node \<Rightarrow> (int \<rightharpoonup> string) \<Rightarrow> bbox list \<Rightarrow>
   'img event list \<times> (error + point list)" where
  "fusion_loop num self nm [] = ([], Inr [])"
| "fusion_loop num self nm (b # bs) =
     (case process_bbox num self nm b of
        (ev, Inl e) \<Rightarrow> (ev, Inl e)
      | (ev, Inr p) \<Rightarrow>
          (case fusion_loop num self nm bs of
             (ev', Inl e) \<Rightarrow> (ev @ ev', Inl e)
           | (ev', Inr bboxes_pcd) \<Rightarrow> (ev @ ev', Inr (p # bboxes_pcd))))"

text \<open>
  \<^verbatim>\<open>main_timer_callback(self)\<close>, lines 171 to 218. It assigns no field of the node, so
  its result is the list of effects and whether it returned or raised.
\<close>

definition main_timer_callback :: "numerics \<Rightarrow> 'img node \<Rightarrow> 'img event list \<times> (error + unit)" where
  "main_timer_callback num self =
     (case depth_image self of
        None \<Rightarrow> ([PrintImageIsNone], Inr ())
      | Some d \<Rightarrow>
          (case raw_image self of
             None \<Rightarrow> ([PrintImageIsNone], Inr ())
           | Some img \<Rightarrow>
               (let res = model self img
                in case fusion_loop num self (names res) (boxes res) of
                     (ev, Inl e) \<Rightarrow> (ModelCall img # ev, Inl e)
                   | (ev, Inr bboxes_pcd) \<Rightarrow>
                       (ModelCall img # ev @ [ImShow, DrawBboxes, WaitKey], Inr ()))))"

section \<open>The stream callbacks\<close>

text \<open>
  \<^verbatim>\<open>image_callback(self, msg)\<close>, lines 136 to 144. The first argument is the colour
  conversion of line 140, the second the outcome of the bridge conversion of line 139 on
  the message: the exception it raised, or the image. Only CvBridgeError is caught. After
  a successful conversion the image is cached, and line 141 calls
  \<^verbatim>\<open>self.raw_image.size()\<close>: \<open>size\<close> of a numpy array is an integer, so the call
  raises TypeError.
\<close>

definition image_callback ::
  "('img \<Rightarrow> 'img) \<Rightarrow> error + 'img \<Rightarrow> 'img node \<Rightarrow> 'img node \<times> 'img event list \<times> (error + unit)" where
  "image_callback cvtColor bridge self =
     (case bridge of
        Inl e \<Rightarrow>
          if e = CvBridgeError then (self, [LogError e], Inr ()) else (self, [], Inl e)
      | Inr img \<Rightarrow> (self\<lparr>raw_image := Some (cvtColor img)\<rparr>, [], Inl TypeError))"

text \<open>\<^verbatim>\<open>depth_callback(self, msg)\<close>, lines 147 to 153.\<close>

definition depth_callback ::
  "error + ndarray \<Rightarrow> 'img node \<Rightarrow> 'img node \<times> 'img event list \<times> (error + unit)" where
  "depth_callback bridge self =
     (case bridge of
        Inl e \<Rightarrow>
          if e = CvBridgeError then (self, [LogError e], Inr ()) else (self, [], Inl e)
      | Inr d \<Rightarrow> (self\<lparr>depth_image := Some d\<rparr>, [], Inr ()))"

text \<open>
  \<^verbatim>\<open>pcd_callback(self, msg)\<close>, lines 156 to 168: the argument is the outcome of reading
  and converting the points; every exception is caught.
\<close>

definition pcd_callback ::
  "error + point list \<Rightarrow> 'img node \<Rightarrow> 'img node \<times> 'img event list \<times> (error + unit)" where
  "pcd_callback conv self =
     (case conv of
        Inl e \<Rightarrow> (self, [LogError e], Inr ())
      | Inr pts \<Rightarrow> (self\<lparr>pcd := Some pts\<rparr>, [], Inr ()))"

section \<open>When a box is handled without raising\<close>

text \<open>
  An index is accepted along an axis of length \<open>n\<close> when it lies in \<open>[-n, n)\<close>. The body
  of the loop completes for a box when its four coordinates convert to integers, the depth
  image is there, the class index is a key of the label dictionary, and the four corner
  pixels are accepted indices of the depth image.
\<close>

definition in_range :: "nat \<Rightarrow> int \<Rightarrow> bool" where
  "in_range n i = (- int n \<le> i \<and> i < int n)"

definition box_ok :: "'img node \<Rightarrow> (int \<rightharpoonup> string) \<Rightarrow> bbox \<Rightarrow> bool" where
  "box_ok self nm b =
     (case (int_bounds b, depth_image self, names_lookup nm (class_index b)) of
        (Inr (xmin, xmax, ymin, ymax), Some d, Inr class_name) \<Rightarrow>
          in_range (ncols d) xmin \<and> in_range (ncols d) xmax \<and>
          in_range (nrows d) ymin \<and> in_range (nrows d) ymax
      | _ \<Rightarrow> False)"

section \<open>Reading the printed lines\<close>

text \<open>
  The class names and depths of the lines printed by line 198, and the point lists of the
  lines printed by line 207, in the order of printing.
\<close>

fun estimated_depths :: "'img event list \<Rightarrow> (string \<times> fl) list" where
  "estimated_depths [] = []"
| "estimated_depths (PrintEstimatedDepth class_name dv # es) = (class_name, dv) # estimated_depths es"
| "estimated_depths (e # es) = estimated_depths es"

fun printed_points :: "'img event list \<Rightarrow> point list list" where
  "printed_points [] = []"
| "printed_points (PrintPoints pts # es) = pts # printed_points es"
| "printed_points (e # es) = printed_points es"

section \<open>IEEE rounding\<close>

text \<open>
  Rounding of a real number to the binary format with \<open>p\<close> significant bits and exponents
  from \<open>emin\<close> to \<open>emax\<close>, to nearest with ties to even: the value is scaled by the power
  of two of its binade (of the smallest binade for a subnormal), rounded to an integer
  and scaled back; a result of magnitude \<open>2 ^ (emax + 1)\<close> or more is an infinity.
\<close>

fun bit_length :: "nat \<Rightarrow> nat" where
  "bit_length n = (if n = 0 then 0 else Suc (bit_length (n div 2)))"

declare bit_length.simps [simp del]

text \<open>The exponent \<open>e\<close> with \<open>2 ^ e \<le> a < 2 ^ (e + 1)\<close>, for \<open>a > 0\<close>.\<close>

definition ilog2 :: "real \<Rightarrow> int" where
  "ilog2 a = (if 1 \<le> a then int (bit_length (nat \<lfloor>a\<rfloor>)) - 1
              else - int (bit_length (nat (\<lceil>1 / a\<rceil> - 1))))"

definition pow2 :: "int \<Rightarrow> real" where
  "pow2 k = (if 0 \<le> k then 2 ^ nat k else 1 / 2 ^ nat (- k))"

definition round_half_even :: "real \<Rightarrow> int" where
  "round_half_even x =
     (let f = \<lfloor>x\<rfloor>; r = x - of_int f
      in if r < 1 / 2 then f else if 1 / 2 < r then f + 1 else if even f then f else f + 1)"

definition fl_round :: "nat \<Rightarrow> int \<Rightarrow> int \<Rightarrow> real \<Rightarrow> fl" where
  "fl_round p emin emax x =
     (if x = 0 then Finite 0
      else
        (let a = \<bar>x\<bar>;
             e = max emin (ilog2 a);
             q = pow2 (e - int p + 1);
             y = of_int (round_half_even (a / q)) * q
         in if pow2 (emax + 1) \<le> y then (if 0 < x then PosInf else NegInf)
            else Finite (if 0 < x then y else - y)))"

definition binary32 :: "real \<Rightarrow> fl" where
  "binary32 = fl_round 24 (- 126) 127"

definition binary64 :: "real \<Rightarrow> fl" where
  "binary64 = fl_round 53 (- 1022) 1023"

text \<open>
  The mean of a short array as numpy computes it on 32-bit floats: fewer than eight values
  are added in order, each sum rounded, and the total is divided by the count.
\<close>

definition np_mean_seq :: "(real \<Rightarrow> fl) \<Rightarrow> fl list \<Rightarrow> fl" where
  "np_mean_seq rnd xs = fl_div rnd (foldl (fl_add rnd) (Finite 0) xs) (Finite (real (length xs)))"

text \<open>
  The arithmetic of the examples: Python floats are 64-bit, the depth image and the
  operations on its scalars are 32-bit, and the regions hold fewer than eight cells.
\<close>

definition ieee :: numerics where
  "ieee = \<lparr>rnd_py = binary64, rnd_np = binary32, np_mean = np_mean_seq binary32\<rparr>"

section \<open>Example inputs\<close>


text \<open>A single cell holding 0.0, and a row of two sensor dropouts.\<close>

definition ex_zero :: ndarray where
  "ex_zero = \<lparr>nrows = 1, ncols = 1, cell = (\<lambda>r c. Finite 0)\<rparr>"

definition ex_dropout :: ndarray where
  "ex_dropout = \<lparr>nrows = 1, ncols = 2, cell = (\<lambda>r c. [NaN, PosInf] ! c)\<rparr>"

text \<open>A label map, a box with given corners, and a node caching a depth image.\<close>

definition ex_names :: "int \<rightharpoonup> string" where
  "ex_names = [0 \<mapsto> ''person'']"

definition ex_box :: "real \<Rightarrow> real \<Rightarrow> real \<Rightarrow> real \<Rightarrow> bbox" where
  "ex_box a b c d =
     \<lparr>x_min = Finite a, y_min = Finite b, x_max = Finite c, y_max = Finite d,
      confidence = Finite (9 / 10), class_index = Finite 0\<rparr>"

definition ex_node :: "ndarray \<Rightarrow> bbox list \<Rightarrow> unit node" where
  "ex_node d bs =
     \<lparr>model = (\<lambda>img. \<lparr>boxes = bs, names = ex_names\<rparr>),
      fx = 100, fy = 100, cx = 50, cy = 50,
      raw_image = Some (), depth_image = Some d, pcd = None\<rparr>"

text \<open>
  The same node with the principal point at the origin and a focal length of 128 pixels.
\<close>

definition ex_cam :: "ndarray \<Rightarrow> bbox list \<Rightarrow> unit node" where
  "ex_cam d bs = (ex_node d bs)\<lparr>fx := 128, fy := 128, cx := 0, cy := 0\<rparr>"

text \<open>A two by two depth image, and a 100 by 100 image of constant depth.\<close>

definition ex_grid :: ndarray where
  "ex_grid = \<lparr>nrows = 2, ncols = 2,
              cell = (\<lambda>r c. [[Finite 1, Finite 2], [Finite 3, Finite 4]] ! r ! c)\<rparr>"

definition ex_plane :: "real \<Rightarrow> ndarray" where
  "ex_plane z = \<lparr>nrows = 100, ncols = 100, cell = (\<lambda>r c. Finite z)\<rparr>"

text \<open>
  A two by three depth image whose middle column is a dropout, two boxes on it (the region
  of the second holds no finite depth), and a node that has an image but no depth image.
\<close>

definition ex_mixed :: ndarray where
  "ex_mixed = \<lparr>nrows = 2, ncols = 3,
               cell = (\<lambda>r c. [[Finite 1, NaN, Finite 5], [Finite 3, NaN, Finite 7]] ! r ! c)\<rparr>"

definition ex_two_boxes :: "bbox list" where
  "ex_two_boxes = [ex_box 0 0 1 1, ex_box 1 0 2 1]"

definition ex_waiting :: "unit node" where
  "ex_waiting = (ex_cam ex_grid [ex_box 0 0 1 1])\<lparr>depth_image := None\<rparr>"

text \<open>Two cells holding 1.5 * 2 ^ 127, a finite 32-bit float.\<close>

definition ex_big :: ndarray where
  "ex_big = \<lparr>nrows = 1, ncols = 2,
             cell = (\<lambda>r c. Finite 255211775190703847597530955573826158592)\<rparr>"

text \<open>The z-coordinate of a point.\<close>

definition point_z :: "point \<Rightarrow> fl" where
  "point_z p = snd (snd p)"

section \<open>Properties of the rounding\<close>

lemma bit_length_bounds:
  "0 < n \<Longrightarrow> 2 ^ (bit_length n - 1) \<le> n \<and> n < 2 ^ bit_length n"
proof (induction n rule: bit_length.induct)
  case (1 n)
  show ?case
  proof (cases "n div 2 = 0")
    case True
    with "1.prems" have "n = 1" by (simp add: div_eq_0_iff) 
    then show ?thesis by (simp add: bit_length.simps)
  next
    case False
    with "1.IH" "1.prems"
    have ih: "2 ^ (bit_length (n div 2) - 1) \<le> n div 2 \<and> n div 2 < 2 ^ bit_length (n div 2)"
      by simp
    from False have pos: "0 < bit_length (n div 2)" by (simp add: bit_length.simps)
    have bl: "bit_length n = Suc (bit_length (n div 2))"
      using "1.prems" by (subst bit_length.simps) simp
    from pos have e: "(2::nat) ^ bit_length (n div 2) = 2 * 2 ^ (bit_length (n div 2) - 1)"
      by (cases "bit_length (n div 2)") simp_all
    from ih e have "2 ^ bit_length (n div 2) \<le> 2 * (n div 2)" by simp
    then have lo: "2 ^ bit_length (n div 2) \<le> n" by linarith
    from ih have "n < 2 * 2 ^ bit_length (n div 2)" by linarith
    with lo bl show ?thesis by simp
  qed
qed

lemma pow2_powi: "pow2 k = 2 powi k"
  by (simp add: pow2_def power_int_def field_simps)

lemma pow2_pos: "0 < pow2 k"
  by (simp add: pow2_powi)

lemma pow2_add: "pow2 (a + b) = pow2 a * pow2 b"
  by (simp add: pow2_powi power_int_add)

lemma pow2_nat: "pow2 (int n) = 2 ^ n"
  by (simp add: pow2_def)

lemma pow2_mono: "a \<le> b \<Longrightarrow> pow2 a \<le> pow2 b"
  by (simp add: pow2_powi power_int_increasing)

lemma pow2_less_imp: "pow2 a < pow2 b \<Longrightarrow> a < b"
  using pow2_mono [of b a] by (cases "a < b") auto

lemma ilog2_lower:
  assumes "0 < a"
  shows "pow2 (ilog2 a) \<le> a"
proof (cases "1 \<le> a")
  case True
  define n where "n = nat \<lfloor>a\<rfloor>"
  from True have n: "0 < n" "real n \<le> a" by (simp_all add: n_def)
  from bit_length_bounds [OF n(1)] have "(2::nat) ^ (bit_length n - 1) \<le> n" by simp
  then have A: "(2::real) ^ (bit_length n - 1) \<le> real n"
    by (metis of_nat_le_iff of_nat_numeral of_nat_power)
  from n(1) have "0 < bit_length n" by (simp add: bit_length.simps)
  then have B: "ilog2 a = int (bit_length n - 1)" using True by (simp add: ilog2_def n_def)
  show ?thesis unfolding B pow2_nat using A n(2) by linarith
next
  case False
  define c where "c = \<lceil>1 / a\<rceil>"
  define b where "b = bit_length (nat (c - 1))"
  from False assms have "1 < 1 / a" by simp
  then have c: "2 \<le> c" unfolding c_def by linarith
  then have "0 < nat (c - 1)" by simp
  from bit_length_bounds [OF this] have "nat (c - 1) < 2 ^ b" by (simp add: b_def)
  with c have "c \<le> 2 ^ b" by (simp add: nat_less_iff)
  then have "real_of_int c \<le> 2 ^ b"
    by (metis of_int_le_iff of_int_numeral of_int_power)
  moreover have "1 / a \<le> real_of_int c" unfolding c_def by linarith
  ultimately have "1 / a \<le> 2 ^ b" by linarith
  with assms have "1 / 2 ^ b \<le> a" by (simp add: field_simps)
  moreover have "ilog2 a = - int b" using False by (simp add: ilog2_def b_def c_def)
  ultimately show ?thesis by (auto simp: pow2_def)
qed

lemma round_half_even_of_int: "round_half_even (of_int n) = n"
  by (simp add: round_half_even_def)

lemma fl_round_exact:
  assumes x: "x = of_int m * pow2 k" and m: "\<bar>m\<bar> < 2 ^ p"
    and k: "emin - int p + 1 \<le> k" and r: "\<bar>x\<bar> < pow2 (emax + 1)"
  shows "fl_round p emin emax x = Finite x"
proof (cases "x = 0")
  case True
  then show ?thesis by (simp add: fl_round_def)
next
  case False
  define a where "a = \<bar>x\<bar>"
  define e where "e = max emin (ilog2 a)"
  define q where "q = pow2 (e - int p + 1)"
  from False have apos: "0 < a" by (simp add: a_def)
  have a: "a = of_int \<bar>m\<bar> * pow2 k"
    using pow2_pos [of k] by (simp add: a_def x abs_mult)
  from m have "real_of_int \<bar>m\<bar> < 2 ^ p"
    by (metis of_int_less_iff of_int_numeral of_int_power)
  then have "a < 2 ^ p * pow2 k" using pow2_pos [of k] by (simp add: a)
  then have "a < pow2 (int p + k)" by (simp add: pow2_add pow2_nat)
  with ilog2_lower [OF apos] have "pow2 (ilog2 a) < pow2 (int p + k)" by linarith
  then have "ilog2 a < int p + k" by (rule pow2_less_imp)
  with k have j: "0 \<le> k - (e - int p + 1)" by (simp add: e_def)
  define j where "j = nat (k - (e - int p + 1))"
  from j have "k = (e - int p + 1) + int j" by (simp add: j_def)
  then have "pow2 k = q * 2 ^ j" by (simp add: q_def pow2_add pow2_nat)
  then have "a / q = of_int (\<bar>m\<bar> * 2 ^ j)"
    using pow2_pos [of "e - int p + 1"] by (simp add: a q_def)
  then have "round_half_even (a / q) = \<bar>m\<bar> * 2 ^ j"
    using round_half_even_of_int by metis
  then have y: "of_int (round_half_even (a / q)) * q = a"
    using \<open>a / q = of_int (\<bar>m\<bar> * 2 ^ j)\<close> pow2_pos [of "e - int p + 1"]
    by (simp add: q_def field_simps)
  from r have "\<not> pow2 (emax + 1) \<le> a" by (simp add: a_def)
  with y False show ?thesis
    unfolding fl_round_def Let_def a_def [symmetric] e_def [symmetric] q_def [symmetric]
    by (auto simp: a_def)
qed

lemma binary32_exact:
  "\<bar>m\<bar> < 2 ^ 24 \<Longrightarrow> - 149 \<le> k \<Longrightarrow> \<bar>of_int m * pow2 k\<bar> < pow2 128 \<Longrightarrow>
   binary32 (of_int m * pow2 k) = Finite (of_int m * pow2 k)"
  unfolding binary32_def by (rule fl_round_exact [OF refl]) simp_all

lemma binary64_exact:
  "\<bar>m\<bar> < 2 ^ 53 \<Longrightarrow> - 1074 \<le> k \<Longrightarrow> \<bar>of_int m * pow2 k\<bar> < pow2 1024 \<Longrightarrow>
   binary64 (of_int m * pow2 k) = Finite (of_int m * pow2 k)"
  unfolding binary64_def by (rule fl_round_exact [OF refl]) simp_all

lemma ilog2_upper:
  assumes "0 < a"
  shows "a < pow2 (ilog2 a + 1)"
proof (cases "1 \<le> a")
  case True
  define n where "n = nat \<lfloor>a\<rfloor>"
  from True have n0: "0 < n" by (simp add: n_def)
  have n1: "a < real n + 1" unfolding n_def using True by linarith
  from bit_length_bounds [OF n0] have "n + 1 \<le> 2 ^ bit_length n" by simp
  then have "real (n + 1) \<le> real (2 ^ bit_length n)" by (simp only: of_nat_le_iff)
  then have A: "real n + 1 \<le> 2 ^ bit_length n" by simp
  from n0 have "0 < bit_length n" by (simp add: bit_length.simps)
  then have B: "ilog2 a + 1 = int (bit_length n)" using True by (simp add: ilog2_def n_def)
  show ?thesis unfolding B pow2_nat using A n1 by linarith
next
  case False
  define c where "c = \<lceil>1 / a\<rceil>"
  define b where "b = bit_length (nat (c - 1))"
  from False assms have "1 < 1 / a" by simp
  then have c: "2 \<le> c" unfolding c_def by linarith
  then have p: "0 < nat (c - 1)" by simp
  then have bpos: "0 < b" by (simp add: b_def bit_length.simps)
  then obtain b' where b': "b = Suc b'" by (cases b) simp_all
  from bit_length_bounds [OF p] have "2 ^ b' \<le> nat (c - 1)" by (simp add: b_def [symmetric] b')
  then have "int (2 ^ b') \<le> int (nat (c - 1))" by (simp only: of_nat_le_iff)
  with c have "2 ^ b' \<le> c - 1" by simp
  then have "real_of_int (2 ^ b') \<le> real_of_int (c - 1)" by (simp only: of_int_le_iff)
  then have "2 ^ b' \<le> real_of_int (c - 1)" by simp
  moreover have "real_of_int (c - 1) < 1 / a" unfolding c_def by linarith
  ultimately have "2 ^ b' < 1 / a" by linarith
  with assms have A: "a < 1 / 2 ^ b'" by (simp add: field_simps)
  have "ilog2 a = - int b" using False by (simp add: ilog2_def b_def c_def)
  then have B: "ilog2 a + 1 = - int b'" by (simp add: b')
  have "pow2 (- int b') = 1 / 2 ^ b'" by (simp add: pow2_def)
  with A show ?thesis unfolding B by simp
qed

lemma ilog2_unique:
  assumes "pow2 e \<le> a" and "a < pow2 (e + 1)"
  shows "ilog2 a = e"
proof -
  from assms(1) pow2_pos [of e] have apos: "0 < a" by linarith
  from ilog2_lower [OF apos] assms(2) have "pow2 (ilog2 a) < pow2 (e + 1)" by linarith
  then have 1: "ilog2 a < e + 1" by (rule pow2_less_imp)
  from ilog2_upper [OF apos] assms(1) have "pow2 e < pow2 (ilog2 a + 1)" by linarith
  then have 2: "e < ilog2 a + 1" by (rule pow2_less_imp)
  from 1 2 show ?thesis by linarith
qed

lemma fl_round_binade:
  assumes "pow2 e0 \<le> \<bar>x\<bar>" and "\<bar>x\<bar> < pow2 (e0 + 1)"
  shows "fl_round p emin emax x =
           (let q = pow2 (max emin e0 - int p + 1);
                y = of_int (round_half_even (\<bar>x\<bar> / q)) * q
            in if pow2 (emax + 1) \<le> y then (if 0 < x then PosInf else NegInf)
               else Finite (if 0 < x then y else - y))"
proof -
  from assms(1) pow2_pos [of e0] have "x \<noteq> 0" by auto
  then have z: "(x = 0) = False" by simp
  have i: "ilog2 \<bar>x\<bar> = e0" by (rule ilog2_unique [OF assms])
  show ?thesis unfolding fl_round_def Let_def i z by (simp only: if_False)
qed

lemma fl_round_zero: "fl_round p emin emax 0 = Finite 0"
  by (simp add: fl_round_def)

text \<open>The values that the examples round.\<close>

lemma binary32_values:
  "binary32 0 = Finite 0" "binary32 1 = Finite 1" "binary32 2 = Finite 2"
  "binary32 3 = Finite 3" "binary32 4 = Finite 4" "binary32 6 = Finite 6"
  "binary32 7 = Finite 7" "binary32 10 = Finite 10" "binary32 14 = Finite 14"
  "binary32 20 = Finite 20" "binary32 100 = Finite 100" "binary32 128 = Finite 128"
  "binary32 (- 1) = Finite (- 1)" "binary32 (- 50) = Finite (- 50)"
  "binary32 (- 100) = Finite (- 100)" "binary32 (5 / 2) = Finite (5 / 2)"
  "binary32 (3 / 2) = Finite (3 / 2)"
  "binary32 (3 / 128) = Finite (3 / 128)" "binary32 (1 / 64) = Finite (1 / 64)"
  "binary32 (1 / 32) = Finite (1 / 32)" "binary32 (5 / 64) = Finite (5 / 64)"
  "binary32 (7 / 64) = Finite (7 / 64)" "binary32 (7 / 128) = Finite (7 / 128)"
  using binary32_exact [of 0 0] binary32_exact [of 1 0] binary32_exact [of 2 0]
    binary32_exact [of 3 0] binary32_exact [of 4 0] binary32_exact [of 6 0]
    binary32_exact [of 7 0] binary32_exact [of 10 0] binary32_exact [of 14 0]
    binary32_exact [of 20 0] binary32_exact [of 100 0] binary32_exact [of 128 0]
    binary32_exact [of "- 1" 0] binary32_exact [of "- 50" 0]
    binary32_exact [of "- 100" 0] binary32_exact [of 5 "- 1"]
    binary32_exact [of 3 "- 1"]
    binary32_exact [of 3 "- 7"] binary32_exact [of 1 "- 6"]
    binary32_exact [of 1 "- 5"] binary32_exact [of 5 "- 6"]
    binary32_exact [of 7 "- 6"] binary32_exact [of 7 "- 7"]
  by (simp_all add: pow2_def)

lemma binary64_values:
  "binary64 0 = Finite 0" "binary64 1 = Finite 1" "binary64 2 = Finite 2"
  "binary64 10 = Finite 10" "binary64 (- 50) = Finite (- 50)"
  using binary64_exact [of 0 0] binary64_exact [of 1 0] binary64_exact [of 2 0]
    binary64_exact [of 10 0] binary64_exact [of "- 50" 0]
  by (simp_all add: pow2_def)


lemma binary32_one_fifth: "binary32 (1 / 5) = Finite (13421773 / 67108864)"
  unfolding binary32_def
  by (subst fl_round_binade [of "- 3"]) (simp_all add: pow2_def round_half_even_def Let_def)

lemma binary32_overflow: "binary32 510423550381407695195061911147652317184 = PosInf"
  unfolding binary32_def
  by (subst fl_round_binade [of 128]) (simp_all add: pow2_def round_half_even_def Let_def)

section \<open>Slicing and the mean depth of a box\<close>

lemmas agg_defs =
  depth_value_def valid_depths_def depth_values_def region_cells_def slice_range_def
  slice_index_def

lemmas ieee_defs = ieee_def np_mean_seq_def binary32_values binary64_values

lemma slice_index_le: "slice_index n i \<le> n"
  by (auto simp: slice_index_def)

lemma set_slice_range:
  "set (slice_range n a b) = {k. slice_index n a \<le> k \<and> k < slice_index n b}"
  by (auto simp: slice_range_def)

lemma slice_index_nonneg: "0 \<le> i \<Longrightarrow> slice_index n i = min (nat i) n"
  by (auto simp: slice_index_def min_def)

lemma product_Nil2: "List.product xs [] = []"
  by (induction xs) simp_all

lemma getitem_index_slice_index: "getitem_index n i = Inr r \<Longrightarrow> slice_index n i = r"
  by (auto simp: getitem_index_def slice_index_def Let_def split: if_splits)

lemma region_cells_iff:
  "(r, c) \<in> set (region_cells arr ymin ymax xmin xmax) \<longleftrightarrow>
     slice_index (nrows arr) ymin \<le> r \<and> r < slice_index (nrows arr) ymax \<and>
     slice_index (ncols arr) xmin \<le> c \<and> c < slice_index (ncols arr) xmax"
  by (auto simp: region_cells_def set_slice_range)

lemma region_cells_in_bounds:
  assumes "(r, c) \<in> set (region_cells arr ymin ymax xmin xmax)"
  shows "r < nrows arr \<and> c < ncols arr"
proof -
  from assms have "r < slice_index (nrows arr) ymax" and "c < slice_index (ncols arr) xmax"
    by (simp_all add: region_cells_iff)
  moreover have "slice_index (nrows arr) ymax \<le> nrows arr"
    and "slice_index (ncols arr) xmax \<le> ncols arr"
    by (rule slice_index_le)+
  ultimately show ?thesis by linarith
qed

lemma slice_nonneg_iff:
  assumes "0 \<le> a" "0 \<le> b"
  shows "slice_index n a \<le> k \<and> k < slice_index n b \<longleftrightarrow> k < n \<and> a \<le> int k \<and> int k < b"
  using assms by (auto simp: slice_index_nonneg)




lemma region_cells_distinct: "distinct (region_cells arr ymin ymax xmin xmax)"
  by (simp add: region_cells_def slice_range_def distinct_product)

lemma slice_lower_iff:
  "k < n \<Longrightarrow> slice_index n i \<le> k \<longleftrightarrow> (if i < 0 then i + int n \<le> int k else i \<le> int k)"
  by (auto simp: slice_index_def)

lemma slice_upper_iff:
  "k < slice_index n i \<longleftrightarrow> k < n \<and> (if i < 0 then int k < i + int n else int k < i)"
  by (auto simp: slice_index_def)

lemma region_cells_wrap:
  "(r, c) \<in> set (region_cells arr ymin ymax xmin xmax) \<longleftrightarrow>
     r < nrows arr \<and> c < ncols arr \<and>
     (if ymin < 0 then ymin + int (nrows arr) \<le> int r else ymin \<le> int r) \<and>
     (if ymax < 0 then int r < ymax + int (nrows arr) else int r < ymax) \<and>
     (if xmin < 0 then xmin + int (ncols arr) \<le> int c else xmin \<le> int c) \<and>
     (if xmax < 0 then int c < xmax + int (ncols arr) else int c < xmax)"
  unfolding region_cells_iff slice_upper_iff
  using slice_lower_iff [of r "nrows arr" ymin] slice_lower_iff [of c "ncols arr" xmin]
  by blast

lemma depth_value_cong:
  assumes "nrows arr' = nrows arr" and "ncols arr' = ncols arr"
    and "\<And>r c. (r, c) \<in> set (region_cells arr ymin ymax xmin xmax) \<Longrightarrow>
           cell arr' r c = cell arr r c"
  shows "depth_value num arr' ymin ymax xmin xmax = depth_value num arr ymin ymax xmin xmax"
proof -
  from assms(1,2)
  have cells: "region_cells arr' ymin ymax xmin xmax = region_cells arr ymin ymax xmin xmax"
    by (simp add: region_cells_def)
  have "depth_values arr' ymin ymax xmin xmax = depth_values arr ymin ymax xmin xmax"
    unfolding depth_values_def cells
  proof (rule map_cong [OF refl])
    fix p assume p: "p \<in> set (region_cells arr ymin ymax xmin xmax)"
    obtain r c where rc: "p = (r, c)" by (cases p)
    with p assms(3) show "(case p of (r, c) \<Rightarrow> cell arr' r c) = (case p of (r, c) \<Rightarrow> cell arr r c)"
      by simp
  qed
  then show ?thesis by (simp add: depth_value_def)
qed



text \<open>
  The mean is not always finite: two cells of 1.5 * 2 ^ 127 are finite 32-bit floats, and
  their sum overflows.
\<close>

lemma binary32_big:
  "binary32 255211775190703847597530955573826158592 =
     Finite 255211775190703847597530955573826158592"
  using binary32_exact [of 3 126] by (simp add: pow2_def)

lemma mean_overflow_example: "depth_value ieee ex_big 0 1 0 2 = PosInf"
  by (simp add: agg_defs ieee_defs binary32_big binary32_overflow ex_big_def Let_def upt_rec)

text \<open>
  Claim C9, as the code has it: when no cell of the region is finite (every cell is NaN or
  an infinity, or the region has no cell), the depth of the box is NaN.
\<close>

theorem depth_value_all_nonfinite:
  "(\<forall>x \<in> set (depth_values arr ymin ymax xmin xmax). \<not> isfinite x) \<Longrightarrow>
   depth_value num arr ymin ymax xmin xmax = NaN"
  by (simp add: depth_value_def valid_depths_def filter_empty_conv)

theorem depth_value_all_nonfinite_witness:
  "depth_values ex_dropout 0 1 0 2 = [NaN, PosInf] \<and> depth_value ieee ex_dropout 0 1 0 2 = NaN"
proof -
  have dv: "depth_values ex_dropout 0 1 0 2 = [NaN, PosInf]"
    by (simp add: agg_defs ex_dropout_def upt_rec)
  then have "\<forall>x \<in> set (depth_values ex_dropout 0 1 0 2). \<not> isfinite x" by simp
  from depth_value_all_nonfinite [OF this] dv show ?thesis by simp
qed

text \<open>
  Claim C9 as stated fails: a region whose only cell is 0.0, a non-positive depth, has the
  depth 0.0 and not NaN.
\<close>

theorem empty_valid_subset_counterexample:
  "depth_values ex_zero 0 1 0 1 = [Finite 0] \<and> depth_value ieee ex_zero 0 1 0 1 = Finite 0"
  by (simp add: agg_defs ieee_defs ex_zero_def Let_def upt_rec)

end
